theory Spec2Isabelle
  imports Main "HOL-Library.AList"
begin

section \<open>Text primitives of the host language\<close>

text \<open>
  Texts are lists of characters; a \<open>char\<close> stands for a code point below 256.
  \<open>is_space\<close> is the whitespace class shared by \<^verbatim>\<open>str.strip()\<close>, \<^verbatim>\<open>str.isspace()\<close> and the
  regular-expression class \<^verbatim>\<open>\s\<close> on that range.
\<close>

definition is_space :: "char \<Rightarrow> bool" where
  "is_space c = ((of_char c :: nat) \<in> {9, 10, 11, 12, 13, 28, 29, 30, 31, 32, 133, 160})"

definition strip :: "string \<Rightarrow> string" where
  "strip s = rev (dropWhile is_space (rev (dropWhile is_space s)))"

definition startswith :: "string \<Rightarrow> string \<Rightarrow> bool" where
  "startswith s p = (take (length p) s = p)"

fun join :: "string \<Rightarrow> string list \<Rightarrow> string" where
  "join sep [] = []"
| "join sep [x] = x"
| "join sep (x # y # ys) = x @ sep @ join sep (y # ys)"

definition digit_char :: "nat \<Rightarrow> char" where
  "digit_char d = char_of (48 + d)"

fun str_nat :: "nat \<Rightarrow> string" where
  "str_nat n = (if n < 10 then [digit_char n] else str_nat (n div 10) @ [digit_char (n mod 10)])"

definition str_int :: "int \<Rightarrow> string" where
  "str_int i = (if i < 0 then CHR ''-'' # str_nat (nat (- i)) else str_nat (nat i))"

text \<open>
  Values a variable can hold: what the JSON decoder produces for a member of the variables
  object, or the text a \<^verbatim>\<open>let\<close> element stores. \<open>POther s\<close> is a value of any other type
  (float, list, nested object) whose \<^verbatim>\<open>str()\<close> rendering is \<open>s\<close>.
\<close>

datatype pyval = PNone | PBool bool | PInt int | PStr string | POther string

fun py_str :: "pyval \<Rightarrow> string" where
  "py_str PNone = ''None''"
| "py_str (PBool b) = (if b then ''True'' else ''False'')"
| "py_str (PInt i) = str_int i"
| "py_str (PStr s) = s"
| "py_str (POther s) = s"

text \<open>A dict with text keys, in insertion order; \<open>AList.update\<close> is item assignment.\<close>

type_synonym scope = "(string \<times> pyval) list"

section \<open>Variable substitution\<close>

text \<open>
  \<^verbatim>\<open>re.sub(r'\{\{\s*([^}]+)\s*\}\}', replace_var, text)\<close>.
  The pattern matches at a position exactly when the text there reads \<^verbatim>\<open>{{\<close>, then a
  non-empty run of characters other than \<^verbatim>\<open>}\<close>, then \<^verbatim>\<open>}}\<close>: the class \<^verbatim>\<open>[^}]\<close> cannot cross a
  closing brace, so the run is the maximal one. Group 1 is what the greedy leading \<^verbatim>\<open>\s*\<close>
  leaves of the run: the run without its leading whitespace, or, when the run is all
  whitespace, its last character (the leading \<^verbatim>\<open>\s*\<close> backs off by one).
\<close>

definition group1 :: "string \<Rightarrow> string" where
  "group1 run = (if list_all is_space run then [last run] else dropWhile is_space run)"

fun match_var :: "string \<Rightarrow> (string \<times> string) option" where
  "match_var (a # b # r) =
     (if a = CHR ''{'' \<and> b = CHR ''{'' then
        (let run = takeWhile (\<lambda>c. c \<noteq> CHR ''}'') r;
             after = dropWhile (\<lambda>c. c \<noteq> CHR ''}'') r
         in if run \<noteq> [] \<and> take 2 after = ''}}'' then Some (group1 run, drop 2 after) else None)
      else None)"
| "match_var _ = None"

definition replace_var :: "scope \<Rightarrow> string \<Rightarrow> string" where
  "replace_var vars g =
     (let var_name = strip g
      in py_str (case map_of vars var_name of
                   Some v \<Rightarrow> v
                 | None \<Rightarrow> PStr (''{{'' @ var_name @ ''}}'')))"

lemma match_var_shorter: "match_var t = Some (g, rest) \<Longrightarrow> length rest < length t"
proof (cases t rule: match_var.cases)
  case (1 a b r)
  assume m: "match_var t = Some (g, rest)"
  have "length (dropWhile (\<lambda>c. c \<noteq> CHR ''}'') r) \<le> length r"
    by (rule length_dropWhile_le)
  with m 1 show ?thesis
    by (auto simp: Let_def split: if_splits)
qed simp_all

function substitute_variables :: "scope \<Rightarrow> string \<Rightarrow> string" where
  "substitute_variables vars [] = []"
| "substitute_variables vars (c # cs) =
     (case match_var (c # cs) of
        Some (g, rest) \<Rightarrow> replace_var vars g @ substitute_variables vars rest
      | None \<Rightarrow> c # substitute_variables vars cs)"
  by pat_completeness auto
termination
  by (relation "measure (\<lambda>(vars, t). length t)") (auto dest: match_var_shorter)

text \<open>
  The identifiers of the placeholders that a left-to-right scan of a text finds, in order:
  the scan of \<open>substitute_variables\<close>, returning the looked-up names instead of replacing.
\<close>

function placeholders :: "string \<Rightarrow> string list" where
  "placeholders [] = []"
| "placeholders (c # cs) =
     (case match_var (c # cs) of
        Some (g, rest) \<Rightarrow> strip g # placeholders rest
      | None \<Rightarrow> placeholders cs)"
  by pat_completeness auto
termination
  by (relation "measure length") (auto dest: match_var_shorter)

definition unresolved :: "scope \<Rightarrow> string \<Rightarrow> bool" where
  "unresolved vars t = (\<forall>n\<in>set (placeholders t). map_of vars n = None)"

text \<open>Whether the first closing brace of a text is immediately followed by a second one.\<close>

definition closes :: "string \<Rightarrow> bool" where
  "closes t = (take 2 (dropWhile (\<lambda>c. c \<noteq> CHR ''}'') t) = ''}}'')"


section \<open>Markup normalizer\<close>

text \<open>The class \<^verbatim>\<open>\w\<close>: letters, digits and the underscore, on code points below 256.\<close>

definition is_word :: "char \<Rightarrow> bool" where
  "is_word c =
     (let n = (of_char c :: nat)
      in (48 \<le> n \<and> n \<le> 57) \<or> (65 \<le> n \<and> n \<le> 90) \<or> n = 95 \<or> (97 \<le> n \<and> n \<le> 122)
         \<or> n \<in> {170, 178, 179, 181, 185, 186, 188, 189, 190}
         \<or> (192 \<le> n \<and> n \<le> 214) \<or> (216 \<le> n \<and> n \<le> 246) \<or> 248 \<le> n)"

text \<open>
  \<^verbatim>\<open>re.sub(r'<(\w+[^>]*)/>', r'<\1></\1>', poml_text)\<close>.
  The pattern matches at a position exactly when the text there reads \<^verbatim>\<open><\<close>, then a body
  running up to the first \<^verbatim>\<open>>\<close>, where the body ends in \<^verbatim>\<open>/\<close> and what precedes that slash is
  non-empty and begins with a word character. Group 1 is the body without its final slash:
  the tag name together with whatever follows it.
\<close>

fun match_self_closing :: "string \<Rightarrow> (string \<times> string) option" where
  "match_self_closing [] = None"
| "match_self_closing (a # r) =
     (let body = takeWhile (\<lambda>c. c \<noteq> CHR ''>'') r;
          after = dropWhile (\<lambda>c. c \<noteq> CHR ''>'') r
      in if a = CHR ''<'' \<and> after \<noteq> [] \<and> body \<noteq> [] \<and> last body = CHR ''/''
            \<and> butlast body \<noteq> [] \<and> is_word (hd (butlast body))
         then Some (butlast body, tl after)
         else None)"

lemma match_self_closing_shorter:
  "match_self_closing t = Some (g, rest) \<Longrightarrow> length rest < length t"
proof (cases t)
  case Nil
  assume "match_self_closing t = Some (g, rest)"
  with Nil show ?thesis by simp
next
  case (Cons a r)
  assume m: "match_self_closing t = Some (g, rest)"
  have "length (dropWhile (\<lambda>c. c \<noteq> CHR ''>'') r) \<le> length r"
    by (rule length_dropWhile_le)
  with m Cons show ?thesis
    by (auto simp: Let_def split: if_splits)
qed

function expand_self_closing :: "string \<Rightarrow> string" where
  "expand_self_closing [] = []"
| "expand_self_closing (c # cs) =
     (case match_self_closing (c # cs) of
        Some (g, rest) \<Rightarrow> ''<'' @ g @ ''></'' @ g @ ''>'' @ expand_self_closing rest
      | None \<Rightarrow> c # expand_self_closing cs)"
  by pat_completeness auto
termination
proof (relation "measure length")
  show "wf (measure length)" by simp
next
  fix c cs x2 x y
  assume "match_self_closing (c # cs) = Some x2" "(x, y) = x2"
  then have "match_self_closing (c # cs) = Some (x, y)" by simp
  from match_self_closing_shorter[OF this] show "(y, c # cs) \<in> measure length" by simp
next
  fix c :: char and cs :: string
  show "(cs, c # cs) \<in> measure length" by simp
qed

definition preprocess_poml :: "string \<Rightarrow> string" where
  "preprocess_poml poml_text =
     (let poml_text = (if \<not> startswith (strip poml_text) ''<poml>''
                       then ''<poml>'' @ poml_text @ ''</poml>''
                       else poml_text)
      in expand_self_closing poml_text)"

section \<open>Markup trees and the prompt model\<close>

text \<open>
  An element as the tree parser delivers it: tag, attributes, the text before the first
  child (absent when there is none) and the children in document order.
\<close>

datatype element =
  Element (etag: string) (attrib: "(string \<times> string) list") (etext: "string option")
          (children: "element list")

definition get_attr :: "element \<Rightarrow> string \<Rightarrow> string \<Rightarrow> string" where
  "get_attr e k d = (case map_of (attrib e) k of Some v \<Rightarrow> v | None \<Rightarrow> d)"

definition text_or :: "string option \<Rightarrow> string" where
  "text_or t = (case t of Some s \<Rightarrow> s | None \<Rightarrow> [])"

definition find_child :: "string \<Rightarrow> element \<Rightarrow> element option" where
  "find_child t e = List.find (\<lambda>c. etag c = t) (children e)"

definition findall :: "string \<Rightarrow> element \<Rightarrow> element list" where
  "findall t e = filter (\<lambda>c. etag c = t) (children e)"

definition lower_char :: "char \<Rightarrow> char" where
  "lower_char c =
     (let n = (of_char c :: nat)
      in if (65 \<le> n \<and> n \<le> 90) \<or> (192 \<le> n \<and> n \<le> 222 \<and> n \<noteq> 215) then char_of (n + 32) else c)"

definition lower :: "string \<Rightarrow> string" where
  "lower s = map lower_char s"

fun contains :: "string \<Rightarrow> string \<Rightarrow> bool" where
  "contains [] p = (p = [])"
| "contains (c # cs) p = (startswith (c # cs) p \<or> contains cs p)"

record example =
  ex_input :: string
  ex_output :: string

record document =
  doc_src :: string
  doc_title :: string
  doc_content :: string

record table =
  tbl_title :: string
  tbl_src :: string
  tbl_headers :: "string list"
  tbl_rows :: "string list list"
  tbl_content :: string

record image =
  img_src :: string
  img_alt :: string
  img_title :: string

record raw_element =
  raw_tag :: string
  raw_text :: string
  raw_attributes :: "(string \<times> string) list"
  raw_children :: "string list"

text \<open>
  The dict returned by the parser. \<open>error\<close> is \<open>None\<close> when the key is not in the dict. The
  entry \<^verbatim>\<open>original_result\<close> of the SDK path (the SDK's own object, kept for debugging) is
  left out.
\<close>

record parsed_data =
  error :: "string option"
  role :: string
  task :: string
  examples :: "example list"
  output_format :: string
  documents :: "document list"
  tables :: "table list"
  images :: "image list"
  variables :: scope
  sdk_used :: string
  raw_elements :: "raw_element list"

section \<open>The environment\<close>

text \<open>
  An exception, with its \<^verbatim>\<open>str()\<close>. Two classes are named because the code has handlers
  for them alone; \<open>OtherError\<close> is any other exception (a \<^verbatim>\<open>RecursionError\<close> of the JSON
  decoder on a deeply nested text, a \<^verbatim>\<open>TypeError\<close> of \<^verbatim>\<open>dict.update\<close>, an \<^verbatim>\<open>OSError\<close>).
\<close>

datatype exn = UnicodeDecodeError string | JSONDecodeError string | OtherError string

fun exn_str :: "exn \<Rightarrow> string" where
  "exn_str (UnicodeDecodeError s) = s"
| "exn_str (JSONDecodeError s) = s"
| "exn_str (OtherError s) = s"

text \<open>
  What the JSON decoder returns for the whole variables text: an object, or some other
  value. For another value the argument records what \<^verbatim>\<open>dict.update\<close> does when handed it:
  the exception it raises, or the items it stores (\<^verbatim>\<open>null\<close>, which the parser replaces by
  an empty dict, an empty list or string, a list of pairs).
\<close>

datatype jdata = JDict scope | JNonDict "exn + scope"

text \<open>
  Everything outside the repository that the code calls: the import system, the JSON and
  XML decoders, the schema validator's message, the external SDK, and the file system with
  the readers of the optional packages. A left injection is a raised exception: its text
  where the code catches every exception alike, the exception itself where the handler
  is selective (the JSON decoder, reading a text file).
\<close>

record world =
  importable :: "string \<Rightarrow> bool"
  json_loads :: "string \<Rightarrow> exn + jdata"
  schema_error :: "jdata \<Rightarrow> string"
  xml_fromstring :: "string \<Rightarrow> string + element"
  poml_sdk :: "string \<Rightarrow> jdata \<Rightarrow> string + (string \<times> string) list"
  path_exists :: "string \<Rightarrow> bool"
  read_text :: "string \<Rightarrow> string \<Rightarrow> exn + string"
  pd_read_csv :: "string \<Rightarrow> string + string"
  csv_reader :: "string \<Rightarrow> string + string list list"
  pd_read_excel :: "string \<Rightarrow> string + string"
  openpyxl_rows :: "string \<Rightarrow> string + pyval list list"
  pdf_pages :: "string \<Rightarrow> string + string list"

text \<open>
  The module-level table of optional packages, filled by six guarded imports. No entry is
  ever made under the key \<^verbatim>\<open>openpyxl\<close>.
\<close>

definition DEPENDENCIES_AVAILABLE :: "world \<Rightarrow> (string \<times> bool) list" where
  "DEPENDENCIES_AVAILABLE w =
     [(''poml'', importable w ''poml''),
      (''pandas'', importable w ''pandas''),
      (''pillow'', importable w ''PIL''),
      (''pypdf2'', importable w ''PyPDF2''),
      (''requests'', importable w ''requests''),
      (''jsonschema'', importable w ''jsonschema'')]"

definition deps_get :: "(string \<times> bool) list \<Rightarrow> string \<Rightarrow> bool" where
  "deps_get d k = (case map_of d k of Some b \<Rightarrow> b | None \<Rightarrow> False)"

section \<open>External content loaders\<close>

text \<open>\<^verbatim>\<open>os.path.splitext(p)[1]\<close> with \<^verbatim>\<open>/\<close> as the separator.\<close>

definition splitext_ext :: "string \<Rightarrow> string" where
  "splitext_ext p =
     (let base = rev (takeWhile (\<lambda>c. c \<noteq> CHR ''/'') (rev p));
          name = dropWhile (\<lambda>c. c = CHR ''.'') base
      in if CHR ''.'' \<in> set name
         then CHR ''.'' # rev (takeWhile (\<lambda>c. c \<noteq> CHR ''.'') (rev name))
         else [])"

definition load_csv_file :: "world \<Rightarrow> string \<Rightarrow> string" where
  "load_csv_file w file_path =
     (let builtin =
            (case csv_reader w file_path of
               Inl e \<Rightarrow> ''Error loading CSV: '' @ e
             | Inr rows \<Rightarrow>
                 (case rows of
                    [] \<Rightarrow> ''Empty CSV file''
                  | headers # data_rows \<Rightarrow>
                      (let line0 = join '' | '' headers
                       in join ''\<newline>''
                            ([line0, replicate (length line0) (CHR ''-'')]
                             @ map (join '' | '') data_rows))))
      in if deps_get (DEPENDENCIES_AVAILABLE w) ''pandas'' then
           (case pd_read_csv w file_path of Inr s \<Rightarrow> s | Inl e \<Rightarrow> builtin)
         else builtin)"

definition load_excel_file :: "world \<Rightarrow> string \<Rightarrow> string" where
  "load_excel_file w file_path =
     (if \<not> deps_get (DEPENDENCIES_AVAILABLE w) ''openpyxl'' then
        ''Excel processing requires openpyxl. Install with: pip install openpyxl''
      else if deps_get (DEPENDENCIES_AVAILABLE w) ''pandas'' then
        (case pd_read_excel w file_path of
           Inr s \<Rightarrow> s
         | Inl e \<Rightarrow> ''Error loading Excel file: '' @ e)
      else if \<not> importable w ''openpyxl'' then
        ''Error loading Excel file: No module named '' @ [CHR 0x27] @ ''openpyxl'' @ [CHR 0x27]
      else
        (case openpyxl_rows w file_path of
           Inl e \<Rightarrow> ''Error loading Excel file: '' @ e
         | Inr cells \<Rightarrow>
             (let rows = map (map (\<lambda>cell. if cell \<noteq> PNone then py_str cell else [])) cells
              in case rows of
                   [] \<Rightarrow> ''Empty Excel file''
                 | r0 # rs \<Rightarrow>
                     (let line0 = join '' | '' r0
                      in join ''\<newline>''
                           ([line0, replicate (length line0) (CHR ''-'')]
                            @ map (join '' | '') rs)))))"

definition load_table_from_file :: "world \<Rightarrow> string \<Rightarrow> exn + string" where
  "load_table_from_file w file_path =
     (let file_ext = lower (splitext_ext file_path)
      in if file_ext = ''.csv'' then Inr (load_csv_file w file_path)
         else if file_ext \<in> set [''.xlsx'', ''.xls''] then Inr (load_excel_file w file_path)
         else read_text w file_path ''utf-8'')"

definition load_pdf_file :: "world \<Rightarrow> string \<Rightarrow> string" where
  "load_pdf_file w file_path =
     (if \<not> deps_get (DEPENDENCIES_AVAILABLE w) ''pypdf2'' then
        ''PDF processing requires PyPDF2. Install with: pip install PyPDF2''
      else
        (case pdf_pages w file_path of
           Inl e \<Rightarrow> ''Error loading PDF: '' @ e
         | Inr text_parts \<Rightarrow> join ''\<newline>\<newline>'' text_parts))"

definition load_document_from_file :: "world \<Rightarrow> string \<Rightarrow> exn + string" where
  "load_document_from_file w file_path =
     (let file_ext = lower (splitext_ext file_path)
      in if file_ext = ''.pdf'' then Inr (load_pdf_file w file_path)
         else
           (case read_text w file_path ''utf-8'' of
              Inr s \<Rightarrow> Inr s
            | Inl (UnicodeDecodeError m) \<Rightarrow> read_text w file_path ''latin-1''
            | Inl e \<Rightarrow> Inl e))"

section \<open>Element processor\<close>

text \<open>
  The parser object holds one mutable dict, \<^verbatim>\<open>self.variables\<close>; the functions below take it
  as \<open>vars\<close> and, where the code assigns into it, return the new one.
\<close>

definition example_child :: "scope \<Rightarrow> element \<Rightarrow> example \<Rightarrow> example" where
  "example_child vars child ex =
     (let child_tag = lower (etag child);
          child_text = strip (text_or (etext child));
          child_text = substitute_variables vars child_text
      in if child_tag = ''input'' then ex\<lparr>ex_input := child_text\<rparr>
         else if child_tag \<in> set [''output'', ''o''] then ex\<lparr>ex_output := child_text\<rparr>
         else ex)"

definition process_example :: "scope \<Rightarrow> element \<Rightarrow> example option" where
  "process_example vars element =
     (let ex = fold (example_child vars) (children element) \<lparr>ex_input = [], ex_output = []\<rparr>;
          ex = (if ex_input ex = [] \<and> ex_output ex = [] \<and> text_or (etext element) \<noteq> []
                then ex\<lparr>ex_input := substitute_variables vars (strip (text_or (etext element)))\<rparr>
                else ex)
      in if ex_input ex \<noteq> [] \<or> ex_output ex \<noteq> [] then Some ex else None)"

definition process_table :: "world \<Rightarrow> element \<Rightarrow> table" where
  "process_table w element =
     (let table_info = \<lparr>tbl_title = get_attr element ''title'' ''Table'',
                         tbl_src = get_attr element ''src'' [],
                         tbl_headers = [], tbl_rows = [], tbl_content = []\<rparr>
      in if tbl_src table_info \<noteq> [] \<and> path_exists w (tbl_src table_info) then
           (case load_table_from_file w (tbl_src table_info) of
              Inr content \<Rightarrow> table_info\<lparr>tbl_content := content\<rparr>
            | Inl e \<Rightarrow>
                table_info\<lparr>tbl_content :=
                  ''Error loading table from '' @ tbl_src table_info @ '': '' @ exn_str e\<rparr>)
         else
           (let thead = find_child ''thead'' element;
                tbody = find_child ''tbody'' element;
                table_info =
                  (case thead of
                     None \<Rightarrow> table_info
                   | Some th \<Rightarrow>
                       (case find_child ''tr'' th of
                          None \<Rightarrow> table_info
                        | Some header_row \<Rightarrow>
                            table_info\<lparr>tbl_headers :=
                              map (\<lambda>c. text_or (etext c)) (findall ''th'' header_row)\<rparr>));
                table_info =
                  (case tbody of
                     None \<Rightarrow> table_info
                   | Some tb \<Rightarrow>
                       table_info\<lparr>tbl_rows :=
                         map (\<lambda>row. map (\<lambda>c. text_or (etext c)) (findall ''td'' row))
                             (findall ''tr'' tb)\<rparr>)
            in if tbl_headers table_info \<noteq> [] \<or> tbl_rows table_info \<noteq> [] then
                 (let lines =
                        (if tbl_headers table_info \<noteq> [] then
                           (let line0 = join '' | '' (tbl_headers table_info)
                            in [line0, replicate (length line0) (CHR ''-'')])
                         else []);
                      lines = lines @ map (join '' | '') (tbl_rows table_info)
                  in table_info\<lparr>tbl_content := join ''\<newline>'' lines\<rparr>)
               else table_info))"

definition process_document :: "world \<Rightarrow> element \<Rightarrow> document" where
  "process_document w element =
     (let doc_info = \<lparr>doc_src = get_attr element ''src'' [],
                       doc_title = get_attr element ''title'' ''Document'',
                       doc_content = text_or (etext element)\<rparr>
      in if doc_src doc_info \<noteq> [] \<and> path_exists w (doc_src doc_info) then
           (case load_document_from_file w (doc_src doc_info) of
              Inr content \<Rightarrow> doc_info\<lparr>doc_content := content\<rparr>
            | Inl e \<Rightarrow> doc_info\<lparr>doc_content := ''Error loading document: '' @ exn_str e\<rparr>)
         else doc_info)"

text \<open>
  One step of the loop over the root's children. The state is the parser's variables
  together with the dict under construction.
\<close>

definition process_element ::
  "world \<Rightarrow> element \<Rightarrow> scope \<times> parsed_data \<Rightarrow> scope \<times> parsed_data" where
  "process_element w element st =
     (let vars = fst st;
          pd = snd st;
          tag = lower (etag element);
          text = text_or (etext element);
          text = substitute_variables vars text;
          st' =
            (if tag = ''role'' then (vars, pd\<lparr>role := strip text\<rparr>)
             else if tag = ''task'' then (vars, pd\<lparr>task := strip text\<rparr>)
             else if tag = ''output-format'' \<or> tag = ''output_format'' then
               (vars, pd\<lparr>output_format := strip text\<rparr>)
             else if tag = ''example'' then
               (case process_example vars element of
                  Some ex \<Rightarrow> (vars, pd\<lparr>examples := examples pd @ [ex]\<rparr>)
                | None \<Rightarrow> (vars, pd))
             else if tag = ''document'' then
               (vars, pd\<lparr>documents := documents pd @ [process_document w element]\<rparr>)
             else if tag = ''table'' then
               (vars, pd\<lparr>tables := tables pd @ [process_table w element]\<rparr>)
             else if tag = ''img'' \<or> tag = ''image'' then
               (vars, pd\<lparr>images := images pd @
                  [\<lparr>img_src = get_attr element ''src'' [],
                    img_alt = get_attr element ''alt'' [],
                    img_title = get_attr element ''title'' ''Image''\<rparr>]\<rparr>)
             else if tag = ''let'' then
               (let var_name = map_of (attrib element) ''name'';
                    var_value = get_attr element ''value'' (strip text)
                in case var_name of
                     None \<Rightarrow> (vars, pd)
                   | Some n \<Rightarrow>
                       if n \<noteq> [] then
                         (AList.update n (PStr (substitute_variables vars var_value)) vars, pd)
                       else (vars, pd))
             else (vars, pd))
      in (fst st',
          (snd st')\<lparr>raw_elements := raw_elements (snd st') @
             [\<lparr>raw_tag = tag, raw_text = text, raw_attributes = attrib element,
               raw_children = map etag (children element)\<rparr>]\<rparr>))"

definition empty_model :: parsed_data where
  "empty_model =
     \<lparr>error = None, role = [], task = [], examples = [], output_format = [],
      documents = [], tables = [], images = [], variables = [],
      sdk_used = ''fallback'', raw_elements = []\<rparr>"

definition error_model :: "string \<Rightarrow> parsed_data" where
  "error_model e =
     \<lparr>error = Some (''POML parsing error: '' @ e),
      role = ''Assistant'', task = ''Help the user'', examples = [], output_format = [],
      documents = [], tables = [], images = [], variables = [],
      sdk_used = ''error'', raw_elements = []\<rparr>"

definition process_children ::
  "world \<Rightarrow> element list \<Rightarrow> scope \<times> parsed_data \<Rightarrow> scope \<times> parsed_data" where
  "process_children w es st = fold (process_element w) es st"

text \<open>
  The dict stored under \<^verbatim>\<open>variables\<close> is the parser's own dict, not a copy: the model that is
  returned shows the bindings as they stand when the loop ends.
\<close>

definition parse_with_fallback :: "world \<Rightarrow> scope \<Rightarrow> string \<Rightarrow> parsed_data" where
  "parse_with_fallback w vars poml_text =
     (let cleaned_poml = preprocess_poml poml_text
      in case xml_fromstring w cleaned_poml of
           Inl e \<Rightarrow> error_model e
         | Inr root \<Rightarrow>
             (let st = process_children w (children root) (vars, empty_model)
              in (snd st)\<lparr>variables := fst st\<rparr>))"

section \<open>External SDK path\<close>

text \<open>
  The SDK's answer is read as its list of messages, each a speaker and the \<^verbatim>\<open>str()\<close> of its
  content; a message without one of the two attributes is skipped by the code and is not
  listed.
\<close>

definition sdk_message :: "string \<times> string \<Rightarrow> string \<times> string \<Rightarrow> string \<times> string" where
  "sdk_message m rt =
     (let speaker = fst m; content = snd m; role' = fst rt; task' = snd rt
      in if speaker = ''system'' then
           (if role' = [] \<and> contains (lower content) ''role'' then (content, task')
            else if task' = [] then (role', content)
            else (role', task'))
         else if speaker = ''human'' \<and> task' = [] then (role', content)
         else (role', task'))"

definition parse_with_official_sdk ::
  "world \<Rightarrow> scope \<Rightarrow> string \<Rightarrow> jdata \<Rightarrow> string + parsed_data" where
  "parse_with_official_sdk w vars poml_text context =
     (case poml_sdk w poml_text context of
        Inl e \<Rightarrow> Inl (''Official POML SDK parsing error: '' @ e)
      | Inr messages \<Rightarrow>
          (let rt = fold sdk_message messages ([], []);
               role' = (if fst rt = [] then ''AI Assistant'' else fst rt);
               task' = (if snd rt = [] then ''Help the user with their request'' else snd rt)
           in Inr \<lparr>error = None, role = role', task = task', examples = [],
                    output_format = [], documents = [], tables = [], images = [],
                    variables = vars, sdk_used = ''official'', raw_elements = []\<rparr>))"

text \<open>\<^verbatim>\<open>d.update(items)\<close> on an insertion-ordered dict.\<close>

definition dict_update :: "scope \<Rightarrow> scope \<Rightarrow> scope" where
  "dict_update d items = fold (\<lambda>kv. AList.update (fst kv) (snd kv)) items d"

text \<open>
  \<^verbatim>\<open>parse\<close> of a fresh parser. The first statement, \<^verbatim>\<open>self.variables.update(context)\<close>, stands
  outside every \<^verbatim>\<open>try\<close>: what it raises reaches the caller.
\<close>

definition update_items :: "jdata \<Rightarrow> exn + scope" where
  "update_items context = (case context of JDict items \<Rightarrow> Inr items | JNonDict r \<Rightarrow> r)"

definition parse :: "world \<Rightarrow> string \<Rightarrow> jdata \<Rightarrow> exn + parsed_data" where
  "parse w poml_text context =
     (case update_items context of
        Inl e \<Rightarrow> Inl e
      | Inr items \<Rightarrow>
          (let vars = dict_update [] items
           in if deps_get (DEPENDENCIES_AVAILABLE w) ''poml'' then
                (case parse_with_official_sdk w vars poml_text context of
                   Inr r \<Rightarrow> Inr r
                 | Inl e \<Rightarrow> Inr (parse_with_fallback w vars poml_text))
              else Inr (parse_with_fallback w vars poml_text)))"

section \<open>Validation of the variables text\<close>

text \<open>
  The only handler around the decoder is \<^verbatim>\<open>except json.JSONDecodeError\<close>: any other
  exception of the decoder leaves the function. The schema check sits in its own
  \<^verbatim>\<open>try\<close> that catches every exception.
\<close>

definition validate_json_context ::
  "world \<Rightarrow> string \<Rightarrow> exn + (bool \<times> jdata \<times> string)" where
  "validate_json_context w json_str =
     (case (if strip json_str \<noteq> [] then json_loads w json_str else Inr (JDict [])) of
        Inl (JSONDecodeError e) \<Rightarrow> Inr (False, JDict [], ''Invalid JSON: '' @ e)
      | Inl x \<Rightarrow> Inl x
      | Inr data \<Rightarrow>
          if deps_get (DEPENDENCIES_AVAILABLE w) ''jsonschema'' then
            (case data of
               JDict items \<Rightarrow> Inr (True, data, ''Valid JSON'')
             | JNonDict r \<Rightarrow>
                 Inr (False, JDict [],
                      ''JSON schema validation failed: '' @ schema_error w data))
          else Inr (True, data, ''Valid JSON''))"

section \<open>Renderer\<close>

definition example_parts :: "nat \<times> example \<Rightarrow> string list" where
  "example_parts ie =
     (let i = fst ie; ex = snd ie
      in if ex_input ex \<noteq> [] \<and> ex_output ex \<noteq> [] then
           [''Example '' @ str_nat i @ '':'',
            ''Input: '' @ ex_input ex,
            ''Output: '' @ ex_output ex]
         else if ex_input ex \<noteq> [] then [''Example '' @ str_nat i @ '': '' @ ex_input ex]
         else [])"

definition render_parts :: "parsed_data \<Rightarrow> string \<Rightarrow> string list" where
  "render_parts pd style =
     (let parts = [];
          parts = parts @
            (if role pd \<noteq> [] then
               [if style = ''optimized'' then ''Role: '' @ role pd else role pd]
             else []);
          parts = parts @
            (if task pd \<noteq> [] then
               [if style = ''optimized'' then ''Task: '' @ task pd else task pd]
             else []);
          parts = parts @
            (if examples pd \<noteq> [] then
               (if style = ''optimized'' then [''Examples:''] else [])
               @ concat (map example_parts (enumerate 1 (examples pd)))
             else []);
          parts = parts @
            concat (map (\<lambda>doc. if doc_content doc \<noteq> []
                                then [''Document - '' @ doc_title doc @ '':'', doc_content doc]
                                else []) (documents pd));
          parts = parts @
            concat (map (\<lambda>t. if tbl_content t \<noteq> []
                              then [''Table - '' @ tbl_title t @ '':'', tbl_content t]
                              else []) (tables pd));
          parts = parts @
            concat (map (\<lambda>img. if img_alt img \<noteq> []
                                then [''Image - '' @ img_title img @ '': '' @ img_alt img]
                                else []) (images pd));
          parts = parts @
            (if output_format pd \<noteq> [] then
               [if style = ''optimized'' then ''Output Format: '' @ output_format pd
                else output_format pd]
             else [])
      in parts)"

definition render :: "parsed_data \<Rightarrow> string \<Rightarrow> string" where
  "render pd style =
     (let parts = render_parts pd style
      in if style = ''debug'' then
           ''\<newline>\<newline>=== DEBUG MODE ===\<newline>''
           @ join ''\<newline>\<newline>''
               (map (\<lambda>ip. ''['' @ str_nat (fst ip) @ ''] '' @ snd ip) (enumerate 1 parts))
         else join ''\<newline>\<newline>'' parts)"

section \<open>Pipeline entry point\<close>

text \<open>
  The metadata is the object handed to \<^verbatim>\<open>json.dumps\<close>; the entry point returns its
  serialisation, the model returns the object.
\<close>

datatype jv = JStr string | JBool bool | JNum nat | JList "jv list" | JObj "(string \<times> jv) list"

definition deps_object :: "world \<Rightarrow> jv" where
  "deps_object w = JObj (map (\<lambda>kb. (fst kb, JBool (snd kb))) (DEPENDENCIES_AVAILABLE w))"

definition success_metadata :: "world \<Rightarrow> string \<Rightarrow> parsed_data \<Rightarrow> string \<Rightarrow> jv" where
  "success_metadata w render_mode pd rendered_prompt =
     JObj
      [(''mode'', JStr render_mode),
       (''sdk_used'', JStr (sdk_used pd)),
       (''components_found'',
          JObj [(''role'', JBool (role pd \<noteq> [])),
                (''task'', JBool (task pd \<noteq> [])),
                (''examples'', JNum (length (examples pd))),
                (''documents'', JNum (length (documents pd))),
                (''tables'', JNum (length (tables pd))),
                (''images'', JNum (length (images pd))),
                (''output_format'', JBool (output_format pd \<noteq> []))]),
       (''variables_used'', JList (map (\<lambda>kv. JStr (fst kv)) (variables pd))),
       (''prompt_length'', JNum (length rendered_prompt)),
       (''dependencies_status'', deps_object w),
       (''features_available'',
          JObj [(''official_poml_sdk'', JBool (deps_get (DEPENDENCIES_AVAILABLE w) ''poml'')),
                (''advanced_tables'', JBool (deps_get (DEPENDENCIES_AVAILABLE w) ''pandas'')),
                (''pdf_processing'', JBool (deps_get (DEPENDENCIES_AVAILABLE w) ''pypdf2'')),
                (''image_processing'', JBool (deps_get (DEPENDENCIES_AVAILABLE w) ''pillow'')),
                (''external_data'', JBool (deps_get (DEPENDENCIES_AVAILABLE w) ''requests'')),
                (''json_validation'',
                   JBool (deps_get (DEPENDENCIES_AVAILABLE w) ''jsonschema''))])]"


text \<open>The result is \<open>Inl\<close> when an exception leaves the entry point.\<close>

definition process_poml ::
  "world \<Rightarrow> string \<Rightarrow> string \<Rightarrow> string \<Rightarrow> int \<Rightarrow> exn + (string \<times> jv)" where
  "process_poml w poml_template render_mode variables_json max_length =
     (case validate_json_context w variables_json of
        Inl x \<Rightarrow> Inl x
      | Inr v \<Rightarrow>
          (let json_valid = fst v; variables' = fst (snd v); json_error = snd (snd v)
           in if \<not> json_valid then
                Inr (''JSON Variables Error: '' @ json_error @ ''\<newline>\<newline>Fallback prompt active.'',
                     JObj [(''error'', JStr json_error), (''mode'', JStr render_mode)])
              else
                (case parse w poml_template variables' of
                   Inl e \<Rightarrow> Inl e
                 | Inr pd \<Rightarrow>
                     (case error pd of
                        Some err \<Rightarrow>
                          Inr (''POML Error: '' @ err @ ''\<newline>\<newline>Fallback: '' @ role pd
                                 @ '' - '' @ task pd,
                               JObj [(''error'', JStr err), (''mode'', JStr render_mode),
                                     (''dependencies'', deps_object w)])
                      | None \<Rightarrow>
                          (let rendered_prompt = render pd render_mode;
                               rendered_prompt =
                                 (if max_length > 0 \<and> int (length rendered_prompt) > max_length
                                  then take (nat max_length) rendered_prompt @ ''...''
                                  else rendered_prompt)
                           in Inr (rendered_prompt,
                                   success_metadata w render_mode pd rendered_prompt))))))"

section \<open>An environment for worked examples\<close>

text \<open>
  A bare installation: no optional package can be imported and no file exists. The two
  decoders are tabulated at the texts the examples use, where they agree with the library
  decoders (the empty text and \<^verbatim>\<open>{bad\<close> are decode errors; \<^verbatim>\<open>{}\<close> is the empty object); every
  other text is reported as a decoding error.
\<close>

abbreviation dq :: string where
  "dq \<equiv> [CHR 0x22]"

definition example_world :: world where
  "example_world =
     \<lparr>importable = (\<lambda>m. False),
      json_loads =
        (\<lambda>s. if s = ''{}'' then Inr (JDict [])
              else if s = ''{bad'' then
                Inl (JSONDecodeError
                  ''Expecting property name enclosed in double quotes: line 1 column 2 (char 1)'')
              else Inl (JSONDecodeError ''Expecting value: line 1 column 1 (char 0)'')),
      schema_error = (\<lambda>d. []),
      xml_fromstring =
        (\<lambda>s. if s = ''<poml><role>Hi</role></poml>''
              then Inr (Element ''poml'' [] None [Element ''role'' [] (Some ''Hi'') []])
              else Inl ''mismatched tag''),
      poml_sdk = (\<lambda>t c. Inl ''poml is not installed''),
      path_exists = (\<lambda>p. False),
      read_text = (\<lambda>p enc. Inl (OtherError ''No such file or directory'')),
      pd_read_csv = (\<lambda>p. Inl ''pandas is not installed''),
      csv_reader = (\<lambda>p. Inl ''No such file or directory''),
      pd_read_excel = (\<lambda>p. Inl ''pandas is not installed''),
      openpyxl_rows = (\<lambda>p. Inl ''No such file or directory''),
      pdf_pages = (\<lambda>p. Inl ''No such file or directory'')\<rparr>"

section \<open>Elements for worked examples\<close>

definition sample_table :: element where
  "sample_table =
     Element ''table'' [(''title'', ''Scores'')] None
       [Element ''thead'' [] None
          [Element ''tr'' [] None
             [Element ''th'' [] (Some ''Name'') [], Element ''th'' [] (Some ''Score'') []]],
        Element ''tbody'' [] None
          [Element ''tr'' [] None
             [Element ''td'' [] (Some ''Ann'') [], Element ''td'' [] (Some ''7'') []]]]"

definition output_only_example :: element where
  "output_only_example = Element ''example'' [] None [Element ''output'' [] (Some ''done'') []]"







section \<open>Properties of variable substitution\<close>

lemma strip_all_space: "list_all is_space s \<Longrightarrow> strip s = []"
  by (auto simp: strip_def list_all_iff dest: set_dropWhileD)

lemma strip_dropWhile: "strip (dropWhile is_space s) = strip s"
  by (simp add: strip_def dropWhile_idem)

lemma strip_group1: "run \<noteq> [] \<Longrightarrow> strip (group1 run) = strip run"
  by (auto simp: group1_def strip_dropWhile strip_all_space list_all_iff)

lemma match_var_intro:
  assumes "R \<noteq> []" "CHR ''}'' \<notin> set R"
  shows "match_var (''{{'' @ R @ ''}}'' @ post) = Some (group1 R, post)"
proof -
  have a: "\<forall>c\<in>set R. c \<noteq> CHR ''}''" using assms(2) by auto
  have t: "takeWhile (\<lambda>c. c \<noteq> CHR ''}'') (R @ ''}}'' @ post) = R"
    using a by (simp add: takeWhile_append2)
  have d: "dropWhile (\<lambda>c. c \<noteq> CHR ''}'') (R @ ''}}'' @ post) = ''}}'' @ post"
    using a by (simp add: dropWhile_append2)
  show ?thesis using assms(1) t d by (simp add: Let_def)
qed

lemma match_var_elim:
  assumes "match_var t = Some (g, rest)"
  shows "\<exists>R. R \<noteq> [] \<and> CHR ''}'' \<notin> set R \<and> t = ''{{'' @ R @ ''}}'' @ rest \<and> g = group1 R"
proof -
  from assms obtain a b r where t: "t = a # b # r"
    by (cases t rule: match_var.cases) auto
  let ?run = "takeWhile (\<lambda>c. c \<noteq> CHR ''}'') r"
  let ?after = "dropWhile (\<lambda>c. c \<noteq> CHR ''}'') r"
  from assms t have ab: "a = CHR ''{''" "b = CHR ''{''" and ne: "?run \<noteq> []"
    and tk: "take 2 ?after = ''}}''" and g: "g = group1 ?run" and rest: "rest = drop 2 ?after"
    by (auto simp: Let_def split: if_splits)
  have "?after = take 2 ?after @ drop 2 ?after" by simp
  then have af: "?after = ''}}'' @ rest" using tk rest by simp
  have "r = ?run @ ?after" by simp
  then have r: "r = ?run @ ''}}'' @ rest" using af by simp
  have nb: "CHR ''}'' \<notin> set ?run" by (auto dest: set_takeWhileD)
  show ?thesis using ab ne g r nb t by auto
qed

lemma substitute_match:
  assumes "R \<noteq> []" "CHR ''}'' \<notin> set R"
  shows "substitute_variables vars (''{{'' @ R @ ''}}'' @ post) =
     (case map_of vars (strip R) of Some v \<Rightarrow> py_str v | None \<Rightarrow> ''{{'' @ strip R @ ''}}'')
       @ substitute_variables vars post"
proof -
  have m: "match_var (CHR ''{'' # CHR ''{'' # R @ ''}}'' @ post) = Some (group1 R, post)"
    using match_var_intro[OF assms, of post] by simp
  have "substitute_variables vars (CHR ''{'' # CHR ''{'' # R @ ''}}'' @ post)
      = replace_var vars (group1 R) @ substitute_variables vars post"
    by (simp only: substitute_variables.simps m option.case prod.case)
  then show ?thesis using assms(1)
    by (simp add: replace_var_def strip_group1 split: option.split)
qed

lemma closes_Cons: "closes (c # t) = (if c = CHR ''}'' then take 1 t = ''}'' else closes t)"
  by (simp add: closes_def)

lemma match_var_iff:
  "match_var (c # X) \<noteq> None \<longleftrightarrow>
     c = CHR ''{'' \<and> (\<exists>d. take 2 X = [CHR ''{'', d] \<and> d \<noteq> CHR ''}'') \<and> closes X"
proof (cases X)
  case Nil
  then show ?thesis by simp
next
  case (Cons x r)
  show ?thesis
  proof (cases r)
    case Nil
    with Cons show ?thesis by (simp add: Let_def)
  next
    case (Cons y r')
    with \<open>X = x # r\<close> show ?thesis
      by (auto simp: Let_def closes_def)
  qed
qed

lemma strip_nonspace_ends:
  "strip s = [] \<or> (\<not> is_space (hd (strip s)) \<and> \<not> is_space (last (strip s)))"
  by (metis dropWhile_eq_self_iff hd_dropWhile last_appendR last_rev
    rev.simps(1) rev_rev_ident strip_def takeWhile_dropWhile_id)

lemma strip_fixed: "t \<noteq> [] \<Longrightarrow> \<not> is_space (hd t) \<Longrightarrow> \<not> is_space (last t) \<Longrightarrow> strip t = t"
  by (metis dropWhile_eq_self_iff hd_rev rev_swap strip_def)

lemma strip_Nil: "strip [] = []"
  by (simp add: strip_def)

lemma strip_idem: "strip (strip s) = strip s"
proof (cases "strip s = []")
  case True
  then show ?thesis by (simp add: strip_Nil)
next
  case False
  then show ?thesis using strip_nonspace_ends[of s] strip_fixed[of "strip s"] by blast
qed

lemma set_strip: "set (strip s) \<subseteq> set s"
  by (auto simp: strip_def dest!: set_dropWhileD)

lemma unresolved_Some:
  "match_var (c # cs) = Some (g, rest) \<Longrightarrow> unresolved vars (c # cs) \<Longrightarrow>
     map_of vars (strip g) = None \<and> unresolved vars rest"
  by (simp add: unresolved_def)

lemma unresolved_None:
  "match_var (c # cs) = None \<Longrightarrow> unresolved vars (c # cs) \<Longrightarrow> unresolved vars cs"
  by (simp add: unresolved_def)

lemma sub_Some:
  "match_var (c # cs) = Some (g, rest) \<Longrightarrow> map_of vars (strip g) = None \<Longrightarrow>
   substitute_variables vars (c # cs) = ''{{'' @ strip g @ ''}}'' @ substitute_variables vars rest"
  by (simp add: replace_var_def)

lemma sub_None:
  "match_var (c # cs) = None \<Longrightarrow>
   substitute_variables vars (c # cs) = c # substitute_variables vars cs"
  by simp

lemma match_var_head: "match_var (c # cs) = Some (g, rest) \<Longrightarrow> c = CHR ''{'' \<and> take 1 cs = ''{''"
  by (drule match_var_elim) auto

lemma take1_sub:
  assumes "unresolved vars t"
  shows "take 1 (substitute_variables vars t) = take 1 t"
proof (cases t)
  case Nil
  then show ?thesis by simp
next
  case (Cons c cs)
  show ?thesis
  proof (cases "match_var (c # cs)")
    case None
    then show ?thesis using Cons by simp
  next
    case (Some p)
    obtain g rest where p: "p = (g, rest)" by (cases p)
    have m: "match_var (c # cs) = Some (g, rest)" using Some p by simp
    from unresolved_Some[OF m] assms Cons have "map_of vars (strip g) = None" by simp
    from sub_Some[OF m this] match_var_head[OF m] Cons show ?thesis by simp
  qed
qed

lemma take2_sub:
  assumes "unresolved vars t"
  shows "take 2 (substitute_variables vars t) = take 2 t"
proof (cases t)
  case Nil
  then show ?thesis by simp
next
  case (Cons c cs)
  show ?thesis
  proof (cases "match_var (c # cs)")
    case None
    have "unresolved vars cs" using unresolved_None[OF None] assms Cons by simp
    from take1_sub[OF this] have "take (Suc 0) (substitute_variables vars cs) = take (Suc 0) cs" by simp
    then show ?thesis using Cons None by (simp add: numeral_2_eq_2)
  next
    case (Some p)
    obtain g rest where p: "p = (g, rest)" by (cases p)
    have m: "match_var (c # cs) = Some (g, rest)" using Some p by simp
    from unresolved_Some[OF m] assms Cons have a: "map_of vars (strip g) = None" by simp
    from match_var_elim[OF m] obtain R where "c # cs = ''{{'' @ R @ ''}}'' @ rest" by blast
    then show ?thesis using sub_Some[OF m a] Cons by simp
  qed
qed

lemma closes_placeholder:
  "CHR ''}'' \<notin> set n \<Longrightarrow> closes (''{{'' @ n @ ''}}'' @ X)"
proof -
  assume "CHR ''}'' \<notin> set n"
  then have "\<forall>c\<in>set n. c \<noteq> CHR ''}''" by auto
  then have "dropWhile (\<lambda>c. c \<noteq> CHR ''}'') (n @ ''}}'' @ X) = ''}}'' @ X"
    by (simp add: dropWhile_append2)
  then show ?thesis by (simp add: closes_def)
qed

lemma strip_no_brace: "CHR ''}'' \<notin> set R \<Longrightarrow> CHR ''}'' \<notin> set (strip R)"
  using set_strip[of R] by auto

lemma closes_sub:
  "unresolved vars t \<Longrightarrow> closes (substitute_variables vars t) = closes t"
proof (induction vars t rule: substitute_variables.induct)
  case (1 vars)
  then show ?case by simp
next
  case (2 vars c cs)
  show ?case
  proof (cases "match_var (c # cs)")
    case None
    have a: "unresolved vars cs" using unresolved_None[OF None "2.prems"] .
    have ih: "closes (substitute_variables vars cs) = closes cs"
      using "2.IH"(1)[OF None a] .
    have t1: "take 1 (substitute_variables vars cs) = take 1 cs" using take1_sub[OF a] .
    show ?thesis using None ih t1 by (simp add: closes_Cons)
  next
    case (Some p)
    obtain g rest where p: "p = (g, rest)" by (cases p)
    have m: "match_var (c # cs) = Some (g, rest)" using Some p by simp
    from unresolved_Some[OF m "2.prems"] have a: "map_of vars (strip g) = None" by simp
    from match_var_elim[OF m] obtain R where R: "R \<noteq> []" "CHR ''}'' \<notin> set R"
      "c # cs = ''{{'' @ R @ ''}}'' @ rest" "g = group1 R" by blast
    have sg: "strip g = strip R" using R(1,4) strip_group1 by simp
    have "closes (c # cs)" unfolding R(3) using closes_placeholder[OF R(2)] .
    moreover have "closes (substitute_variables vars (c # cs))"
      unfolding sub_Some[OF m a] sg using closes_placeholder[OF strip_no_brace[OF R(2)]] .
    ultimately show ?thesis by simp
  qed
qed

lemma match_var_sub_None:
  assumes "match_var (c # cs) = None" "unresolved vars cs"
  shows "match_var (c # substitute_variables vars cs) = None"
proof -
  have "\<not> (c = CHR ''{'' \<and> (\<exists>d. take 2 cs = [CHR ''{'', d] \<and> d \<noteq> CHR ''}'') \<and> closes cs)"
    using assms(1) match_var_iff[of c cs] by simp
  then have "\<not> (c = CHR ''{'' \<and> (\<exists>d. take 2 (substitute_variables vars cs) = [CHR ''{'', d] \<and> d \<noteq> CHR ''}'')
      \<and> closes (substitute_variables vars cs))"
    unfolding take2_sub[OF assms(2)] closes_sub[OF assms(2)] .
  then show ?thesis using match_var_iff[of c "substitute_variables vars cs"] by blast
qed

lemma match_var_not_brace: "c \<noteq> CHR ''{'' \<Longrightarrow> match_var (c # X) = None"
  by (cases X) simp_all

lemma sub_empty_placeholder:
  "substitute_variables vars (''{{}}'' @ X) = ''{{}}'' @ substitute_variables vars X"
  by (simp add: Let_def match_var_not_brace)

lemma sub_placeholder_again:
  assumes "CHR ''}'' \<notin> set n" "strip n = n" "map_of vars n = None"
  shows "substitute_variables vars (''{{'' @ n @ ''}}'' @ X) = ''{{'' @ n @ ''}}'' @ substitute_variables vars X"
proof (cases "n = []")
  case True
  then show ?thesis using sub_empty_placeholder[of vars X] by simp
next
  case False
  from substitute_match[OF False assms(1), of vars X] assms(2,3) show ?thesis by simp
qed


lemma match_var_shape:
  "match_var t \<noteq> None \<longleftrightarrow>
     (\<exists>R post. R \<noteq> [] \<and> CHR ''}'' \<notin> set R \<and> t = ''{{'' @ R @ ''}}'' @ post)"
proof
  assume "match_var t \<noteq> None"
  then obtain g rest where "match_var t = Some (g, rest)" by (cases "match_var t") auto
  from match_var_elim[OF this] show "\<exists>R post. R \<noteq> [] \<and> CHR ''}'' \<notin> set R \<and> t = ''{{'' @ R @ ''}}'' @ post"
    by blast
next
  assume "\<exists>R post. R \<noteq> [] \<and> CHR ''}'' \<notin> set R \<and> t = ''{{'' @ R @ ''}}'' @ post"
  then obtain R post where "R \<noteq> []" "CHR ''}'' \<notin> set R" "t = ''{{'' @ R @ ''}}'' @ post" by blast
  then show "match_var t \<noteq> None" using match_var_intro[of R post] by simp
qed

lemma substitute_example_present:
  "substitute_variables [(''x'', PStr ''5'')] ''a {{x}} b'' = ''a 5 b''"
  by (simp add: replace_var_def strip_def is_space_def group1_def)

lemma substitute_example_absent:
  "substitute_variables [(''x'', PStr ''5'')] ''a {{y}} b'' = ''a {{y}} b''"
  by (simp add: replace_var_def strip_def is_space_def group1_def)

text \<open>
  Claim C1, as stated, at the spec's own second example: with \<open>y\<close> absent from the scope the
  placeholder \<^verbatim>\<open>{{ y }}\<close> is not left as it is; the whitespace around the identifier is lost.
\<close>

theorem substitute_variables_absent_counterexample:
  "map_of [(''x'', PStr ''5'')] ''y'' = None \<and>
   substitute_variables [(''x'', PStr ''5'')] ''a {{ y }} b'' = ''a {{y}} b'' \<and>
   substitute_variables [(''x'', PStr ''5'')] ''a {{ y }} b'' \<noteq> ''a {{ y }} b''"
  by (simp add: replace_var_def strip_def is_space_def group1_def)

text \<open>
  Claim C1, amended. A match is the text \<^verbatim>\<open>{{\<close>, a non-empty run \<open>R\<close> free of \<^verbatim>\<open>}\<close>, then
  \<^verbatim>\<open>}}\<close>; its identifier is \<open>strip R\<close>. For every scope and text: a match whose identifier is
  in the scope is replaced by the string coercion of the scope's value; a match whose
  identifier is absent is replaced by \<^verbatim>\<open>{{\<close>, the identifier, \<^verbatim>\<open>}}\<close>, that is by itself with
  the whitespace around the identifier removed, hence by itself unchanged when the
  identifier has no whitespace around it; a character at which no match starts is copied.
  With scope \<open>{"x": "5"}\<close>, \<^verbatim>\<open>a {{x}} b\<close> becomes \<^verbatim>\<open>a 5 b\<close> and \<^verbatim>\<open>a {{y}} b\<close> stays as it is.
\<close>

theorem substitute_variables_placeholder:
  "(R \<noteq> [] \<and> CHR ''}'' \<notin> set R \<longrightarrow>
      substitute_variables vars (''{{'' @ R @ ''}}'' @ post) =
        (case map_of vars (strip R) of
           Some v \<Rightarrow> py_str v
         | None \<Rightarrow> ''{{'' @ strip R @ ''}}'') @ substitute_variables vars post)
   \<and> (R \<noteq> [] \<and> CHR ''}'' \<notin> set R \<and> strip R = R \<and> map_of vars R = None \<longrightarrow>
      substitute_variables vars (''{{'' @ R @ ''}}'' @ post) =
        ''{{'' @ R @ ''}}'' @ substitute_variables vars post)
   \<and> (match_var (c # cs) = None \<longrightarrow>
      substitute_variables vars (c # cs) = c # substitute_variables vars cs)
   \<and> (match_var t \<noteq> None \<longleftrightarrow>
        (\<exists>R' post'. R' \<noteq> [] \<and> CHR ''}'' \<notin> set R' \<and> t = ''{{'' @ R' @ ''}}'' @ post'))
   \<and> substitute_variables [(''x'', PStr ''5'')] ''a {{x}} b'' = ''a 5 b''
   \<and> substitute_variables [(''x'', PStr ''5'')] ''a {{y}} b'' = ''a {{y}} b''"
proof (intro conjI impI)
  assume a: "R \<noteq> [] \<and> CHR ''}'' \<notin> set R"
  then show "substitute_variables vars (''{{'' @ R @ ''}}'' @ post) =
        (case map_of vars (strip R) of
           Some v \<Rightarrow> py_str v
         | None \<Rightarrow> ''{{'' @ strip R @ ''}}'') @ substitute_variables vars post"
    using substitute_match[of R vars post] by blast
next
  assume a: "R \<noteq> [] \<and> CHR ''}'' \<notin> set R \<and> strip R = R \<and> map_of vars R = None"
  then show "substitute_variables vars (''{{'' @ R @ ''}}'' @ post) =
        ''{{'' @ R @ ''}}'' @ substitute_variables vars post"
    using substitute_match[of R vars post] by simp
next
  assume "match_var (c # cs) = None"
  then show "substitute_variables vars (c # cs) = c # substitute_variables vars cs"
    by (rule sub_None)
next
  show "match_var t \<noteq> None \<longleftrightarrow>
        (\<exists>R' post'. R' \<noteq> [] \<and> CHR ''}'' \<notin> set R' \<and> t = ''{{'' @ R' @ ''}}'' @ post')"
    by (rule match_var_shape)
next
  show "substitute_variables [(''x'', PStr ''5'')] ''a {{x}} b'' = ''a 5 b''"
    by (rule substitute_example_present)
next
  show "substitute_variables [(''x'', PStr ''5'')] ''a {{y}} b'' = ''a {{y}} b''"
    by (rule substitute_example_absent)
qed

theorem substitute_variables_placeholder_witness:
  "substitute_variables [(''x'', PStr ''5'')] ''{{ x }}{{ y }}!'' = ''5{{y}}!''"
proof -
  have p: "substitute_variables [(''x'', PStr ''5'')] (''{{'' @ '' x '' @ ''}}'' @ ''{{ y }}!'') =
        (case map_of [(''x'', PStr ''5'')] (strip '' x '') of
           Some v \<Rightarrow> py_str v
         | None \<Rightarrow> ''{{'' @ strip '' x '' @ ''}}'') @ substitute_variables [(''x'', PStr ''5'')] ''{{ y }}!''"
    using substitute_variables_placeholder[of " '' x ''" "[(''x'', PStr ''5'')]" "''{{ y }}!''"]
    by simp
  have q: "substitute_variables [(''x'', PStr ''5'')] (''{{'' @ '' y '' @ ''}}'' @ ''!'') =
        (case map_of [(''x'', PStr ''5'')] (strip '' y '') of
           Some v \<Rightarrow> py_str v
         | None \<Rightarrow> ''{{'' @ strip '' y '' @ ''}}'') @ substitute_variables [(''x'', PStr ''5'')] ''!''"
    using substitute_variables_placeholder[of " '' y ''" "[(''x'', PStr ''5'')]" "''!''"]
    by simp
  have s: "strip '' x '' = ''x''" "strip '' y '' = ''y''"
    by (simp_all add: strip_def is_space_def)
  have e: "substitute_variables [(''x'', PStr ''5'')] ''!'' = ''!''" by simp
  show ?thesis using p q s e by simp
qed

text \<open>
  Claim C8. For every text whose placeholders all name identifiers absent from the scope,
  substituting twice gives the same text as substituting once.
\<close>

theorem substitute_variables_idempotent:
  "unresolved vars t \<Longrightarrow>
   substitute_variables vars (substitute_variables vars t) = substitute_variables vars t"
proof (induction vars t rule: substitute_variables.induct)
  case (1 vars)
  then show ?case by simp
next
  case (2 vars c cs)
  show ?case
  proof (cases "match_var (c # cs)")
    case None
    have a: "unresolved vars cs" using unresolved_None[OF None "2.prems"] .
    have ih: "substitute_variables vars (substitute_variables vars cs) = substitute_variables vars cs"
      using "2.IH"(1)[OF None a] .
    have "substitute_variables vars (c # substitute_variables vars cs)
        = c # substitute_variables vars (substitute_variables vars cs)"
      using sub_None[OF match_var_sub_None[OF None a]] .
    then show ?thesis using None ih by simp
  next
    case (Some p)
    obtain g rest where p: "p = (g, rest)" by (cases p)
    have m: "match_var (c # cs) = Some (g, rest)" using Some p by simp
    from unresolved_Some[OF m "2.prems"] have a: "map_of vars (strip g) = None" and ar: "unresolved vars rest" by simp_all
    from match_var_elim[OF m] obtain R where R: "R \<noteq> []" "CHR ''}'' \<notin> set R"
      "c # cs = ''{{'' @ R @ ''}}'' @ rest" "g = group1 R" by blast
    have sg: "strip g = strip R" using R(1,4) strip_group1 by simp
    have ih: "substitute_variables vars (substitute_variables vars rest) = substitute_variables vars rest"
      using "2.IH"(2)[OF Some p[symmetric] ar] .
    show ?thesis
      unfolding sub_Some[OF m a] sg
      using sub_placeholder_again[OF strip_no_brace[OF R(2)] strip_idem, of vars "substitute_variables vars rest"]
        a sg ih by simp
  qed
qed

theorem substitute_variables_idempotent_witness:
  "unresolved [(''x'', PStr ''5'')] ''a {{ y }} b {{}} {{ }}'' \<and>
   substitute_variables [(''x'', PStr ''5'')]
     (substitute_variables [(''x'', PStr ''5'')] ''a {{ y }} b {{}} {{ }}'')
   = substitute_variables [(''x'', PStr ''5'')] ''a {{ y }} b {{}} {{ }}''"
proof -
  have h: "unresolved [(''x'', PStr ''5'')] ''a {{ y }} b {{}} {{ }}''"
    by (simp add: unresolved_def strip_def is_space_def group1_def)
  show ?thesis using h substitute_variables_idempotent[OF h] by blast
qed

section \<open>Properties of the normalizer and of the spreadsheet loader\<close>

lemma match_self_closing_intro:
  assumes "g \<noteq> []" "is_word (hd g)" "CHR ''>'' \<notin> set g"
  shows "match_self_closing (''<'' @ g @ ''/>'' @ post) = Some (g, post)"
proof -
  have a: "\<forall>c\<in>set g. c \<noteq> CHR ''>''" using assms(3) by auto
  have t: "takeWhile (\<lambda>c. c \<noteq> CHR ''>'') (g @ ''/>'' @ post) = g @ ''/''"
    using a by (simp add: takeWhile_append2)
  have d: "dropWhile (\<lambda>c. c \<noteq> CHR ''>'') (g @ ''/>'' @ post) = CHR ''>'' # post"
    using a by (simp add: dropWhile_append2)
  show ?thesis using assms(1,2) t d by (simp add: Let_def)
qed

lemma expand_self_closing_match:
  assumes "g \<noteq> []" "is_word (hd g)" "CHR ''>'' \<notin> set g"
  shows "expand_self_closing (''<'' @ g @ ''/>'' @ post) =
           ''<'' @ g @ ''></'' @ g @ ''>'' @ expand_self_closing post"
proof -
  have m: "match_self_closing (CHR ''<'' # g @ ''/>'' @ post) = Some (g, post)"
    using match_self_closing_intro[OF assms, of post] by simp
  show ?thesis using m by simp
qed

text \<open>
  Claim C3. The normalizer is meant to turn \<^verbatim>\<open><name attrs/>\<close> into \<^verbatim>\<open><name attrs></name>\<close>, the
  closing tag carrying the name only, so that the result parses as one tree. On the input
  \<^verbatim>\<open><img src="a.png"/>\<close> the code wraps the text in the root tag and then repeats the whole
  group, attributes included, in the closing tag, which no tree parser accepts.
\<close>

theorem preprocess_poml_closing_tag_repeats_attributes:
  "preprocess_poml (''<img src='' @ dq @ ''a.png'' @ dq @ ''/>'') =
     ''<poml><img src='' @ dq @ ''a.png'' @ dq @ ''></img src='' @ dq @ ''a.png'' @ dq @ ''></poml>''
   \<and> preprocess_poml (''<img src='' @ dq @ ''a.png'' @ dq @ ''/>'') \<noteq>
     ''<poml><img src='' @ dq @ ''a.png'' @ dq @ ''></img></poml>''"
  by (simp add: preprocess_poml_def startswith_def strip_def is_space_def is_word_def Let_def)

text \<open>
  Claim C4. The spreadsheet loader is meant to render the sheet when the spreadsheet
  capability is there and to answer with a "capability unavailable" text otherwise. The
  table of packages never receives the key the loader asks for, so in every environment,
  also one where the spreadsheet packages can be imported, the loader answers that the
  capability is missing and reads nothing.
\<close>

theorem load_excel_file_never_reads:
  "deps_get (DEPENDENCIES_AVAILABLE w) ''openpyxl'' = False
   \<and> load_excel_file w file_path =
       ''Excel processing requires openpyxl. Install with: pip install openpyxl''"
  by (simp add: load_excel_file_def deps_get_def DEPENDENCIES_AVAILABLE_def)

lemma load_table_from_file_xlsx: "load_table_from_file w ''data/report.XLSX'' =
       Inr ''Excel processing requires openpyxl. Install with: pip install openpyxl''"
  by code_simp

section \<open>Properties of the element processor and of the renderer\<close>

lemma lower_tags:
  "lower ''role'' = ''role''" "lower ''document'' = ''document''" "lower ''table'' = ''table''"
  "lower ''img'' = ''img''" "lower ''let'' = ''let''" "lower ''example'' = ''example''"
  "lower ''output'' = ''output''" "lower ''task'' = ''task''"
  "lower ''output-format'' = ''output-format''" "lower ''input'' = ''input''"
  by code_simp+

text \<open>
  Claim C7. For every table element with no \<^verbatim>\<open>src\<close> attribute, a header of two cells and one
  data row, the generated content is exactly three lines: the two header cells joined by
  \<^verbatim>\<open> | \<close>, a line of dashes as long as the header line, and the row's cells joined by \<^verbatim>\<open> | \<close>.
\<close>

theorem process_table_two_columns_one_row:
  assumes "map_of (attrib e) ''src'' = None"
    and "find_child ''thead'' e = Some th"
    and "find_child ''tr'' th = Some hr"
    and "map (\<lambda>c. text_or (etext c)) (findall ''th'' hr) = [h1, h2]"
    and "find_child ''tbody'' e = Some tb"
    and "findall ''tr'' tb = [row]"
    and "map (\<lambda>c. text_or (etext c)) (findall ''td'' row) = cells"
  shows "tbl_headers (process_table w e) = [h1, h2]
     \<and> tbl_rows (process_table w e) = [cells]
     \<and> tbl_content (process_table w e) =
         (h1 @ '' | '' @ h2) @ ''\<newline>''
         @ replicate (length (h1 @ '' | '' @ h2)) (CHR ''-'') @ ''\<newline>''
         @ join '' | '' cells"
  using assms by (simp add: process_table_def get_attr_def Let_def)

theorem process_table_two_columns_one_row_witness:
  "tbl_content (process_table example_world sample_table) =
     ''Name | Score'' @ ''\<newline>'' @ ''------------'' @ ''\<newline>'' @ ''Ann | 7''"
proof -
  let ?th = "Element ''thead'' [] None
          [Element ''tr'' [] None
             [Element ''th'' [] (Some ''Name'') [], Element ''th'' [] (Some ''Score'') []]]"
  let ?hr = "Element ''tr'' [] None
             [Element ''th'' [] (Some ''Name'') [], Element ''th'' [] (Some ''Score'') []]"
  let ?tb = "Element ''tbody'' [] None
          [Element ''tr'' [] None
             [Element ''td'' [] (Some ''Ann'') [], Element ''td'' [] (Some ''7'') []]]"
  let ?row = "Element ''tr'' [] None
             [Element ''td'' [] (Some ''Ann'') [], Element ''td'' [] (Some ''7'') []]"
  have 1: "map_of (attrib sample_table) ''src'' = None" by (simp add: sample_table_def)
  have 2: "find_child ''thead'' sample_table = Some ?th" by (simp add: sample_table_def find_child_def)
  have 3: "find_child ''tr'' ?th = Some ?hr" by (simp add: find_child_def)
  have 4: "map (\<lambda>c. text_or (etext c)) (findall ''th'' ?hr) = [''Name'', ''Score'']"
    by (simp add: findall_def text_or_def)
  have 5: "find_child ''tbody'' sample_table = Some ?tb" by (simp add: sample_table_def find_child_def)
  have 6: "findall ''tr'' ?tb = [?row]" by (simp add: findall_def)
  have 7: "map (\<lambda>c. text_or (etext c)) (findall ''td'' ?row) = [''Ann'', ''7'']"
    by (simp add: findall_def text_or_def)
  from process_table_two_columns_one_row[OF 1 2 3 4 5 6 7, of example_world]
  show ?thesis by simp
qed




lemma process_output_only_example:
  "examples (snd (process_element w output_only_example (vars, empty_model)))
     = [\<lparr>ex_input = [], ex_output = ''done''\<rparr>]"
  by (simp add: process_element_def output_only_example_def lower_tags
      process_example_def example_child_def text_or_def empty_model_def strip_def is_space_def Let_def)




text \<open>
  Claim C2. Every textual field stored in the prompt model is meant to have had variable
  substitution applied. With \<open>x\<close> bound to \<open>5\<close>, the text \<^verbatim>\<open>{{x}}\<close> of a \<^verbatim>\<open>role\<close> element is stored
  as \<open>5\<close>, but the same text is stored untouched as a document's content, as a table's
  title, header cell, row cell and generated content, and as an image's source and
  alternative text.
\<close>

theorem stored_fields_without_substitution:
  "role (snd (process_element w (Element ''role'' [] (Some ''{{x}}'') [])
               ([(''x'', PStr ''5'')], empty_model))) = ''5''
   \<and> documents (snd (process_element w (Element ''document'' [] (Some ''{{x}}'') [])
               ([(''x'', PStr ''5'')], empty_model)))
       = [\<lparr>doc_src = [], doc_title = ''Document'', doc_content = ''{{x}}''\<rparr>]
   \<and> tables (snd (process_element w
               (Element ''table'' [(''title'', ''{{x}}'')] None
                  [Element ''thead'' [] None
                     [Element ''tr'' [] None [Element ''th'' [] (Some ''{{x}}'') []]],
                   Element ''tbody'' [] None
                     [Element ''tr'' [] None [Element ''td'' [] (Some ''{{x}}'') []]]])
               ([(''x'', PStr ''5'')], empty_model)))
       = [\<lparr>tbl_title = ''{{x}}'', tbl_src = [], tbl_headers = [''{{x}}''],
            tbl_rows = [[''{{x}}'']],
            tbl_content = ''{{x}}'' @ ''\<newline>'' @ ''-----'' @ ''\<newline>'' @ ''{{x}}''\<rparr>]
   \<and> images (snd (process_element w
               (Element ''img'' [(''src'', ''{{x}}.png''), (''alt'', ''{{x}}'')] None [])
               ([(''x'', PStr ''5'')], empty_model)))
       = [\<lparr>img_src = ''{{x}}.png'', img_alt = ''{{x}}'', img_title = ''Image''\<rparr>]"
proof (intro conjI)
  show "role (snd (process_element w (Element ''role'' [] (Some ''{{x}}'') [])
               ([(''x'', PStr ''5'')], empty_model))) = ''5''"
    by (simp add: process_element_def lower_tags text_or_def replace_var_def group1_def
        strip_def is_space_def empty_model_def Let_def)
next
  show "documents (snd (process_element w (Element ''document'' [] (Some ''{{x}}'') [])
               ([(''x'', PStr ''5'')], empty_model)))
       = [\<lparr>doc_src = [], doc_title = ''Document'', doc_content = ''{{x}}''\<rparr>]"
    by (simp add: process_element_def lower_tags text_or_def process_document_def get_attr_def
        empty_model_def Let_def)
next
  show "tables (snd (process_element w
               (Element ''table'' [(''title'', ''{{x}}'')] None
                  [Element ''thead'' [] None
                     [Element ''tr'' [] None [Element ''th'' [] (Some ''{{x}}'') []]],
                   Element ''tbody'' [] None
                     [Element ''tr'' [] None [Element ''td'' [] (Some ''{{x}}'') []]]])
               ([(''x'', PStr ''5'')], empty_model)))
       = [\<lparr>tbl_title = ''{{x}}'', tbl_src = [], tbl_headers = [''{{x}}''],
            tbl_rows = [[''{{x}}'']],
            tbl_content = ''{{x}}'' @ ''\<newline>'' @ ''-----'' @ ''\<newline>'' @ ''{{x}}''\<rparr>]"
    by (simp add: process_element_def lower_tags text_or_def process_table_def get_attr_def
        find_child_def findall_def empty_model_def Let_def)
next
  show "images (snd (process_element w
               (Element ''img'' [(''src'', ''{{x}}.png''), (''alt'', ''{{x}}'')] None [])
               ([(''x'', PStr ''5'')], empty_model)))
       = [\<lparr>img_src = ''{{x}}.png'', img_alt = ''{{x}}'', img_title = ''Image''\<rparr>]"
    by (simp add: process_element_def lower_tags text_or_def get_attr_def
        empty_model_def Let_def)
qed


































section \<open>Properties of the pipeline entry point\<close>



text \<open>
  Outside the claims: when the schema validator is missing, a variables text that decodes
  to something \<^verbatim>\<open>dict.update\<close> refuses makes the entry point raise.
\<close>

lemma parse_update_raises:
  "update_items ctx = Inl x \<Longrightarrow> validate_json_context w vj = Inr (True, ctx, m) \<Longrightarrow>
   process_poml w t mode vj ml = Inl x"
  by (simp add: process_poml_def parse_def Let_def)






text \<open>
  Outside the claims: the handler around the decoder is selective. When the decoder
  raises anything but its decode error on a non-blank text (a \<^verbatim>\<open>RecursionError\<close> on a
  thousand opening brackets), the exception leaves the entry point.
\<close>

lemma decoder_exception_escapes:
  assumes "strip vj \<noteq> []" and "json_loads w vj = Inl (OtherError x)"
  shows "process_poml w t mode vj ml = Inl (OtherError x)"
  using assms by (simp add: process_poml_def validate_json_context_def)



end
